theory Spec2Isabelle
  imports Complex_Main "HOL-Library.Sublist"
begin

section \<open>The history store (database.py)\<close>

text \<open>
  The store is one SQLite file with the table \<open>query_history\<close>, whose key is declared
  \<open>id INTEGER PRIMARY KEY AUTOINCREMENT\<close>. SQLite keeps, for such a table, the largest
  rowid it ever handed out in its bookkeeping table \<open>sqlite_sequence\<close>; a new row gets one
  more than the larger of that number and the largest rowid present, and the insert fails
  (SQLITE_FULL, \<open>sqlite3.OperationalError\<close> in Python) once the largest rowid
  \<open>2^63 - 1\<close> has been used. \<open>DELETE FROM query_history\<close> leaves
  \<open>sqlite_sequence\<close> alone.

  Python's \<open>int\<close> is modelled as \<open>int\<close>. A Python \<open>str\<close> is modelled by the
  bytes of its UTF-8 encoding, a \<open>string\<close>, which is what SQLite stores in a TEXT column.
  A lone surrogate (U+D800 to U+DFFF) has no UTF-8 encoding; it is modelled by the three
  bytes the same scheme would give it: 0xED, a byte from 0xA0 to 0xBF and one more. So
  every \<open>str\<close> has a model, and the strings that cannot be encoded are those with the
  byte 0xED before a byte from 0xA0 to 0xBF.
  Failures of the file system under the database file are outside the model.
\<close>

subsection \<open>Rows and the clock\<close>

text \<open>The five columns that \<open>get_all_queries\<close> selects; \<open>id'\<close> is the column \<open>id\<close> and
  \<open>method'\<close> the column \<open>method\<close>.\<close>

record query_record =
  id' :: int
  timestamp :: string
  query :: string
  method' :: string
  response :: string

text \<open>A row of the table: the selected columns and \<open>created_at\<close>.\<close>

record table_row = query_record +
  created_at :: string

record datetime =
  year :: nat
  month :: nat
  day :: nat
  hour :: nat
  minute :: nat

text \<open>
  What the two clocks read during one \<open>save_query\<close>: \<open>datetime.now()\<close> of Python and
  \<open>CURRENT_TIMESTAMP\<close> of SQLite (the default of \<open>created_at\<close>).
\<close>

record clock =
  now :: datetime
  current_timestamp :: string

fun digits :: "nat \<Rightarrow> string" where
  "digits n =
     (if n < 10 then [char_of (48 + n)]
      else digits (n div 10) @ [char_of (48 + n mod 10)])"

declare digits.simps [simp del]

definition zero_pad :: "nat \<Rightarrow> string \<Rightarrow> string" where
  "zero_pad w s = replicate (w - length s) (CHR ''0'') @ s"

text \<open>\<open>strftime("%Y-%m-%d %H:%M")\<close>, the year written with four digits.\<close>

definition strftime :: "datetime \<Rightarrow> string" where
  "strftime d =
     zero_pad 4 (digits (year d)) @ ''-'' @ zero_pad 2 (digits (month d)) @ ''-'' @
     zero_pad 2 (digits (day d)) @ '' '' @ zero_pad 2 (digits (hour d)) @ '':'' @
     zero_pad 2 (digits (minute d))"

subsection \<open>The store and its operations\<close>

record store =
  query_history :: "table_row list"
  sqlite_sequence :: int

datatype db_error =
  OperationalError string | DataError string | UnicodeEncodeError string | OverflowError string

definition max_rowid :: int where
  "max_rowid = 9223372036854775807"

fun largest_rowid :: "table_row list \<Rightarrow> int" where
  "largest_rowid [] = 0"
| "largest_rowid (r # rs) = max (id' r) (largest_rowid rs)"

text \<open>The largest rowid the table ever held, as AUTOINCREMENT sees it.\<close>

definition high_water :: "store \<Rightarrow> int" where
  "high_water s = max (sqlite_sequence s) (largest_rowid (query_history s))"

text \<open>
  \<open>init_db\<close>: \<open>CREATE TABLE IF NOT EXISTS\<close>. The argument is the database file as found:
  \<open>None\<close> when it does not exist yet.
\<close>

definition init_db :: "store option \<Rightarrow> store" where
  "init_db file =
     (case file of
        None \<Rightarrow> \<lparr>query_history = [], sqlite_sequence = 0\<rparr>
      | Some s \<Rightarrow> s)"

text \<open>The string holds a lone surrogate: the byte 0xED before a byte from 0xA0 to 0xBF.\<close>

fun has_surrogate :: "string \<Rightarrow> bool" where
  "has_surrogate (a # b # rest) =
     ((a = CHR 0xED \<and> 160 \<le> (of_char b :: nat) \<and> (of_char b :: nat) \<le> 191) \<or>
      has_surrogate (b # rest))"
| "has_surrogate _ = False"

text \<open>SQLite's limit on the length of a string and of a row, and C's \<open>INT_MAX\<close>.\<close>

definition sqlite_max_length :: int where
  "sqlite_max_length = 1000000000"

definition int_max :: int where
  "int_max = 2147483647"

text \<open>
  Binding one \<open>str\<close> to a \<open>?\<close> of the statement: Python encodes it
  (\<open>UnicodeEncodeError\<close> on a surrogate), refuses more than \<open>INT_MAX\<close> bytes, and
  SQLite refuses more bytes than its limit (SQLITE_TOOBIG, \<open>sqlite3.DataError\<close>).
\<close>

definition bind_text :: "string \<Rightarrow> db_error + unit" where
  "bind_text s =
     (if has_surrogate s then Inl (UnicodeEncodeError ''surrogates not allowed'')
      else if int_max < int (length s)
        then Inl (OverflowError ''string longer than INT_MAX bytes'')
      else if sqlite_max_length < int (length s) then Inl (DataError ''string or blob too big'')
      else Inr ())"

text \<open>The bytes of a variable-length integer of SQLite's record format.\<close>

definition varint_len :: "int \<Rightarrow> int" where
  "varint_len v =
     (if v < 128 then 1 else if v < 16384 then 2 else if v < 2097152 then 3
      else if v < 268435456 then 4 else if v < 34359738368 then 5
      else if v < 4398046511104 then 6 else if v < 562949953421312 then 7
      else if v < 72057594037927936 then 8 else 9)"

text \<open>
  The bytes of the row as SQLite builds it: the header (its own length, then one serial
  type for each of the six columns, \<open>2 * n + 13\<close> for a text of \<open>n\<close> bytes) and the
  columns. The column \<open>id\<close> is the rowid and takes no byte. The timestamp that
  \<open>strftime\<close> gives for a datetime of Python (years 1 to 9999) has 16 bytes and
  \<open>CURRENT_TIMESTAMP\<close> has 19. A row longer than the limit is refused (SQLITE_TOOBIG).
\<close>

definition record_bytes :: "string \<Rightarrow> string \<Rightarrow> string \<Rightarrow> int" where
  "record_bytes q m r =
     (let nq = int (length q); nm = int (length m); nr = int (length r);
          header = 1 + (1 + 1 + varint_len (2 * nq + 13) + varint_len (2 * nm + 13) +
                        varint_len (2 * nr + 13) + 1)
      in header + (16 + nq + nm + nr + 19))"

text \<open>The strings that one row can hold.\<close>

definition storable :: "string \<Rightarrow> string \<Rightarrow> string \<Rightarrow> bool" where
  "storable q m r =
     (\<not> has_surrogate q \<and> \<not> has_surrogate m \<and> \<not> has_surrogate r \<and>
      record_bytes q m r \<le> sqlite_max_length)"

text \<open>
  \<open>save_query\<close> returns \<open>cursor.lastrowid\<close>, or raises what \<open>cursor.execute\<close>
  raises: the parameters are bound in their order (the timestamp, first, is always
  accepted), then the insert takes a new rowid and builds the row.
\<close>

definition save_query ::
  "string \<Rightarrow> string \<Rightarrow> string \<Rightarrow> clock \<Rightarrow> store \<Rightarrow> db_error + (int \<times> store)" where
  "save_query q m r clk s =
     (case bind_text q of Inl e \<Rightarrow> Inl e | Inr _ \<Rightarrow>
      case bind_text m of Inl e \<Rightarrow> Inl e | Inr _ \<Rightarrow>
      case bind_text r of Inl e \<Rightarrow> Inl e | Inr _ \<Rightarrow>
        if max_rowid \<le> high_water s
        then Inl (OperationalError ''database or disk is full'')
        else if sqlite_max_length < record_bytes q m r
        then Inl (DataError ''string or blob too big'')
        else
          let new_id = high_water s + 1;
              row = \<lparr>id' = new_id, timestamp = strftime (now clk), query = q, method' = m,
                     response = r, created_at = current_timestamp clk\<rparr>
          in Inr (new_id,
                  s\<lparr>query_history := query_history s @ [row], sqlite_sequence := new_id\<rparr>))"

definition dict_of_row :: "table_row \<Rightarrow> query_record" where
  "dict_of_row r =
     \<lparr>id' = id' r, timestamp = timestamp r, query = query r, method' = method' r,
      response = response r\<rparr>"

text \<open>\<open>SELECT id, timestamp, query, method, response ... ORDER BY id DESC\<close>.\<close>

definition get_all_queries :: "store \<Rightarrow> query_record list" where
  "get_all_queries s = map dict_of_row (rev (sort_key id' (query_history s)))"

definition get_query_by_id :: "store \<Rightarrow> int \<Rightarrow> table_row option" where
  "get_query_by_id s query_id = find (\<lambda>r. id' r = query_id) (query_history s)"

definition clear_history :: "store \<Rightarrow> store" where
  "clear_history s = s\<lparr>query_history := []\<rparr>"

definition get_query_count :: "store \<Rightarrow> int" where
  "get_query_count s = int (length (query_history s))"

subsection \<open>Sequences of calls\<close>

text \<open>
  A caller's calls on the store, in order, and what each of them gave back. A
  \<open>save_query\<close> that raises leaves the store as it was.
\<close>

datatype store_call = SaveQuery string string string clock | ClearHistory

datatype call_result = Saved int | SaveFailed db_error | Cleared

fun run_call :: "store \<Rightarrow> store_call \<Rightarrow> call_result \<times> store" where
  "run_call s (SaveQuery q m r clk) =
     (case save_query q m r clk s of
        Inl e \<Rightarrow> (SaveFailed e, s)
      | Inr (i, s') \<Rightarrow> (Saved i, s'))"
| "run_call s ClearHistory = (Cleared, clear_history s)"

fun run_calls :: "store \<Rightarrow> store_call list \<Rightarrow> call_result list \<times> store" where
  "run_calls s [] = ([], s)"
| "run_calls s (c # cs) =
     (case run_call s c of
        (res, s') \<Rightarrow> (case run_calls s' cs of (ress, s'') \<Rightarrow> (res # ress, s'')))"

fun assigned_ids :: "call_result list \<Rightarrow> int list" where
  "assigned_ids [] = []"
| "assigned_ids (Saved i # rs) = i # assigned_ids rs"
| "assigned_ids (_ # rs) = assigned_ids rs"

fun is_saved :: "call_result \<Rightarrow> bool" where
  "is_saved (Saved _) = True"
| "is_saved _ = False"

fun save_call :: "string \<times> string \<times> string \<times> clock \<Rightarrow> store_call" where
  "save_call (q, m, r, clk) = SaveQuery q m r clk"

text \<open>
  SQLite keeps \<open>sqlite_sequence\<close> at least as large as every rowid of the table. The
  fresh store has that property and every operation keeps it.
\<close>

definition store_ok :: "store \<Rightarrow> bool" where
  "store_ok s = (largest_rowid (query_history s) \<le> sqlite_sequence s)"

text \<open>A clock reading, for running the operations on concrete input.\<close>

definition clock0 :: clock where
  "clock0 = \<lparr>now = \<lparr>year = 2026, month = 11, day = 4, hour = 9, minute = 5\<rparr>,
             current_timestamp = ''2026-11-04 08:05:31''\<rparr>"

section \<open>The indexing progress classifier (app.py)\<close>

text \<open>
  The handler of the Start Indexing button reads the child's output line by line. A log
  line is a \<open>string\<close>; \<open>str.lower\<close> is modelled on the ASCII letters, the only
  ones the keywords are made of, and \<open>sub in s\<close> on strings is \<open>sublist sub s\<close>.
\<close>

definition lower_char :: "char \<Rightarrow> char" where
  "lower_char c =
     (let n = (of_char c :: nat) in if 65 \<le> n \<and> n \<le> 90 then char_of (n + 32) else c)"

definition lower :: "string \<Rightarrow> string" where
  "lower s = map lower_char s"

text \<open>
  The \<open>if\<close>/\<open>elif\<close> chain of the loop body: the percentage and the text of the
  \<open>progress_bar.progress\<close> call it makes for a line, \<open>None\<close> when it makes none.
\<close>

definition classify :: "string \<Rightarrow> (nat \<times> string) option" where
  "classify line =
     (let line_lower = lower line in
      if sublist ''load_input'' line_lower then Some (10, ''Loading documents...'')
      else if sublist ''text_units'' line_lower then Some (20, ''Creating text units...'')
      else if sublist ''extract_graph'' line_lower \<and> sublist ''starting'' line_lower
        then Some (30, ''Extracting entities (slow)...'')
      else if sublist ''extract graph progress'' line_lower then Some (50, ''Extracting graph...'')
      else if sublist ''finalize_graph'' line_lower then Some (60, ''Finalizing graph...'')
      else if sublist ''communities'' line_lower then Some (70, ''Creating communities...'')
      else if sublist ''community_reports'' line_lower then Some (80, ''Generating reports...'')
      else if sublist ''embeddings'' line_lower then Some (90, ''Generating embeddings...'')
      else if sublist ''pipeline complete'' line_lower then Some (100, ''Complete!'')
      else None)"

text \<open>A line contains a keyword, whatever the case of the letters on either side.\<close>

definition contains_ci :: "string \<Rightarrow> string \<Rightarrow> bool" where
  "contains_ci kw line = sublist (lower kw) (lower line)"

text \<open>
  What the loop of the handler changes: the log text of the session and the progress bar.
  The bar starts at \<open>st.progress(0, text="Starting...")\<close>. The handler as a whole,
  with the start of the child before the loop, is \<open>start_indexing\<close> below.
\<close>

record session =
  logs :: string
  progress :: nat
  progress_text :: string

definition handle_line :: "session \<Rightarrow> string \<Rightarrow> session" where
  "handle_line st line =
     (let st' = st\<lparr>logs := logs st @ line\<rparr> in
      case classify line of
        None \<Rightarrow> st'
      | Some (p, t) \<Rightarrow> st'\<lparr>progress := p, progress_text := t\<rparr>)"

fun stream_lines :: "session \<Rightarrow> string list \<Rightarrow> session" where
  "stream_lines st [] = st"
| "stream_lines st (line # rest) = stream_lines (handle_line st line) rest"

text \<open>The value of the bar after each line of the stream.\<close>

fun progress_trace :: "session \<Rightarrow> string list \<Rightarrow> nat list" where
  "progress_trace st [] = []"
| "progress_trace st (line # rest) =
     progress (handle_line st line) # progress_trace (handle_line st line) rest"

text \<open>The percentages of the \<open>progress_bar.progress\<close> calls the loop makes, in order.\<close>

fun reported :: "string list \<Rightarrow> nat list" where
  "reported [] = []"
| "reported (line # rest) =
     (case classify line of None \<Rightarrow> reported rest | Some (p, t) \<Rightarrow> p # reported rest)"

definition start_session :: "string \<Rightarrow> session" where
  "start_session old_logs = \<lparr>logs = old_logs, progress = 0, progress_text = ''Starting...''\<rparr>"

section \<open>Python names and exceptions (utils.py)\<close>

text \<open>
  An exception is its class and its \<open>str()\<close>. A function returns \<open>Inr\<close> its value or
  \<open>Inl\<close> the exception that leaves it.
\<close>

datatype exc_class =
  NameError | TypeError | KeyError | OSError | TimeoutExpired | YAMLError | OtherException

datatype py_exception = Raised exc_class string

fun exc_str :: "py_exception \<Rightarrow> string" where
  "exc_str (Raised c msg) = msg"

fun exc_class_of :: "py_exception \<Rightarrow> exc_class" where
  "exc_class_of (Raised c msg) = c"

definition py_bind :: "'e + 'a \<Rightarrow> ('a \<Rightarrow> 'e + 'b) \<Rightarrow> 'e + 'b" where
  "py_bind x f = (case x of Inl e \<Rightarrow> Inl e | Inr v \<Rightarrow> f v)"

definition name_error :: "string \<Rightarrow> py_exception" where
  "name_error n = Raised NameError (''name '' @ [CHR 0x27] @ n @ [CHR 0x27] @ '' is not defined'')"

text \<open>
  The names bound in the module \<open>utils\<close> once it is imported: its \<open>import\<close> lines
  (\<open>os\<close>, \<open>sys\<close>, \<open>shutil\<close>, \<open>requests\<close>, \<open>pandas as pd\<close>), its three constants
  and its functions. Neither \<open>subprocess\<close> nor \<open>yaml\<close> is imported anywhere in the
  module, and neither is a builtin.
\<close>

definition utils_globals :: "string list" where
  "utils_globals =
     [''os'', ''sys'', ''shutil'', ''requests'', ''pd'', ''RAG_DIR'', ''INPUT_DIR'',
      ''GRAPHRAG_CMD'', ''init_graphrag'', ''check_ollama_status'', ''update_settings'',
      ''run_indexing'', ''run_query'', ''get_latest_output_dir'', ''load_parquet_files'',
      ''save_uploaded_file'', ''clear_project'']"

text \<open>Reading a global name: \<open>NameError\<close> when the module does not bind it.\<close>

definition load_global :: "string list \<Rightarrow> string \<Rightarrow> py_exception + unit" where
  "load_global globals n = (if n \<in> set globals then Inr () else Inl (name_error n))"

definition RAG_DIR :: string where
  "RAG_DIR = ''rag_project''"

section \<open>The blocking query call (utils.py, run_query)\<close>

text \<open>
  What the operating system does with a command line: the child runs for some seconds and
  exits with a code, its standard output and its standard error, or it cannot be started.
\<close>

datatype child = Runs nat int string string | NotStarted py_exception

text \<open>
  \<open>subprocess.run(argv, capture_output=True, text=True, timeout=t)\<close>: the return code,
  the standard output and the standard error of the child, or \<open>TimeoutExpired\<close>.
\<close>

definition subprocess_run ::
  "(string list \<Rightarrow> child) \<Rightarrow> string list \<Rightarrow> nat \<Rightarrow> py_exception + (int \<times> string \<times> string)" where
  "subprocess_run os_exec argv timeout =
     (case os_exec argv of
        NotStarted e \<Rightarrow> Inl e
      | Runs seconds returncode out err \<Rightarrow>
          if timeout < seconds
          then Inl (Raised TimeoutExpired ''Command timed out'')
          else Inr (returncode, out, err))"

text \<open>
  The body of the \<open>try\<close>: \<open>os.environ.copy()\<close> first, then the call, for which the
  name \<open>subprocess\<close> is read before anything is run.
\<close>

definition run_query_try ::
  "string list \<Rightarrow> (string list \<Rightarrow> child) \<Rightarrow> string \<Rightarrow> string \<Rightarrow> string \<Rightarrow> py_exception + string" where
  "run_query_try globals os_exec graphrag_cmd q m =
     py_bind (load_global globals ''os'') (\<lambda>_.
     py_bind (load_global globals ''subprocess'') (\<lambda>_.
     py_bind (subprocess_run os_exec
                [graphrag_cmd, ''query'', ''--root'', RAG_DIR, ''--method'', m, ''--query'', q] 600)
       (\<lambda>(returncode, out, err).
          if returncode \<noteq> 0 then Inr (''Error: '' @ err) else Inr out)))"

text \<open>
  The \<open>try\<close> statement. When the body raises, Python evaluates the expression of each
  \<open>except\<close> clause in turn to match the exception: first \<open>subprocess.TimeoutExpired\<close>,
  whose evaluation reads the name \<open>subprocess\<close> again, then \<open>Exception\<close>. An exception
  raised by that evaluation leaves the statement.
\<close>

definition run_query_in ::
  "string list \<Rightarrow> (string list \<Rightarrow> child) \<Rightarrow> string \<Rightarrow> string \<Rightarrow> string \<Rightarrow> py_exception + string" where
  "run_query_in globals os_exec graphrag_cmd q m =
     (case run_query_try globals os_exec graphrag_cmd q m of
        Inr result \<Rightarrow> Inr result
      | Inl e \<Rightarrow>
          py_bind (load_global globals ''subprocess'') (\<lambda>_.
            if exc_class_of e = TimeoutExpired
            then Inr ''Query timed out. Local LLMs can be slow - try a simpler question or wait longer.''
            else Inr (''Exception: '' @ exc_str e)))"

definition run_query ::
  "(string list \<Rightarrow> child) \<Rightarrow> string \<Rightarrow> string \<Rightarrow> string \<Rightarrow> py_exception + string" where
  "run_query = run_query_in utils_globals"

section \<open>The Start Indexing handler (utils.py run_indexing, app.py)\<close>

text \<open>
  What \<open>subprocess.Popen\<close> gives for a command line: a child that prints lines and then
  exits with a code, or an exception.
\<close>

datatype popen = Process "string list" int | PopenRaises py_exception

text \<open>
  \<open>run_indexing\<close>: the process, or \<open>None\<close> when its body raises, whatever it raises
  (\<open>except Exception\<close>). The name \<open>subprocess\<close> is read before anything is started.
\<close>

definition run_indexing_in ::
  "string list \<Rightarrow> (string list \<Rightarrow> popen) \<Rightarrow> string \<Rightarrow> (string list \<times> int) option" where
  "run_indexing_in globals os_popen graphrag_cmd =
     (case py_bind (load_global globals ''os'') (\<lambda>_.
           py_bind (load_global globals ''subprocess'') (\<lambda>_.
             case os_popen [graphrag_cmd, ''index'', ''--root'', RAG_DIR, ''--verbose''] of
               PopenRaises e \<Rightarrow> Inl e
             | Process printed return_code \<Rightarrow> Inr (printed, return_code))) of
        Inl e \<Rightarrow> None
      | Inr process \<Rightarrow> Some process)"

text \<open>\<open>str\<close> of an \<open>int\<close>, for the f-string of the failure message.\<close>

definition str_int :: "int \<Rightarrow> string" where
  "str_int i = (if i < 0 then ''-'' @ digits (nat (- i)) else digits (nat i))"

text \<open>
  What the handler leaves: the session, the values the progress bar took (from
  \<open>st.progress(0, ...)\<close> on, one after each line read, and the final one), and the
  message it shows.
\<close>

record indexing_run =
  final_session :: session
  bar_values :: "nat list"
  notice :: string

text \<open>
  The handler of the Start Indexing button. \<open>iter(process.stdout.readline, '')\<close> reads
  lines up to the first empty one. The check mark of the last label is written as its
  three bytes.
\<close>

definition start_indexing_in ::
  "string list \<Rightarrow> (string list \<Rightarrow> popen) \<Rightarrow> string \<Rightarrow> string \<Rightarrow> indexing_run" where
  "start_indexing_in globals os_popen graphrag_cmd old_logs =
     (let st0 = start_session old_logs in
      case run_indexing_in globals os_popen graphrag_cmd of
        None \<Rightarrow>
          \<lparr>final_session = st0, bar_values = [0],
           notice = ''Failed to start indexing process.''\<rparr>
      | Some (printed, return_code) \<Rightarrow>
          let read = takeWhile (\<lambda>line. line \<noteq> []) printed;
              st1 = stream_lines st0 read
          in if return_code = 0
             then \<lparr>final_session =
                     st1\<lparr>progress := 100,
                         progress_text := [CHR 0xE2, CHR 0x9C, CHR 0x85] @ '' Indexing Complete!''\<rparr>,
                   bar_values = 0 # progress_trace st0 read @ [100],
                   notice = ''Knowledge graph built successfully!''\<rparr>
             else \<lparr>final_session = st1,
                   bar_values = 0 # progress_trace st0 read,
                   notice = ''Indexing failed (exit code '' @ str_int return_code @
                            ''). Check Logs tab.''\<rparr>)"


text \<open>
  A child that prints three lines and exits with 0, and the module as it would be with
  \<open>import subprocess\<close>.
\<close>

definition child0 :: "string list \<Rightarrow> popen" where
  "child0 argv =
     Process [''Workflow complete: create_communities'', ''Extract Graph Progress: 1/4'',
              ''Workflow started: create_final_text_units''] 0"

definition globals_with_subprocess :: "string list" where
  "globals_with_subprocess = ''subprocess'' # utils_globals"

section \<open>The settings projector (utils.py, update_settings)\<close>

text \<open>
  A YAML document as \<open>yaml.safe_load\<close> returns it: mappings keep the order of their keys.
  Keys are strings, and no node is shared between two places of the document.
\<close>

datatype yaml =
  YNull | YBool bool | YInt int | YFloat rat | YStr string
  | YList "yaml list" | YDict "(string \<times> yaml) list"

text \<open>\<open>k in v\<close> for a string \<open>k\<close>.\<close>

fun py_contains :: "string \<Rightarrow> yaml \<Rightarrow> py_exception + bool" where
  "py_contains k (YDict kvs) = Inr (k \<in> set (map fst kvs))"
| "py_contains k (YList xs) = Inr (YStr k \<in> set xs)"
| "py_contains k (YStr s) = Inr (sublist k s)"
| "py_contains k _ = Inl (Raised TypeError ''argument is not iterable'')"

text \<open>\<open>v[k]\<close> for a string \<open>k\<close>.\<close>

fun getitem :: "yaml \<Rightarrow> string \<Rightarrow> py_exception + yaml" where
  "getitem (YDict kvs) k =
     (case map_of kvs k of
        None \<Rightarrow> Inl (Raised KeyError ([CHR 0x27] @ k @ [CHR 0x27]))
      | Some v \<Rightarrow> Inr v)"
| "getitem (YList xs) k = Inl (Raised TypeError ''list indices must be integers or slices, not str'')"
| "getitem (YStr s) k = Inl (Raised TypeError ''string indices must be integers, not str'')"
| "getitem _ k = Inl (Raised TypeError ''object is not subscriptable'')"

fun dict_set :: "string \<Rightarrow> yaml \<Rightarrow> (string \<times> yaml) list \<Rightarrow> (string \<times> yaml) list" where
  "dict_set k v [] = [(k, v)]"
| "dict_set k v ((k', v') # kvs) =
     (if k' = k then (k, v) # kvs else (k', v') # dict_set k v kvs)"

text \<open>\<open>d[k] = v\<close> for a string \<open>k\<close>.\<close>

fun setitem :: "yaml \<Rightarrow> string \<Rightarrow> yaml \<Rightarrow> py_exception + yaml" where
  "setitem (YDict kvs) k v = Inr (YDict (dict_set k v kvs))"
| "setitem (YList xs) k v = Inl (Raised TypeError ''list indices must be integers or slices, not str'')"
| "setitem _ k v = Inl (Raised TypeError ''object does not support item assignment'')"

fun set_items :: "yaml \<Rightarrow> (string \<times> yaml) list \<Rightarrow> py_exception + yaml" where
  "set_items d [] = Inr d"
| "set_items d ((k, v) # kvs) = py_bind (setitem d k v) (\<lambda>d'. set_items d' kvs)"

text \<open>
  The source changes a nested mapping in place through a reference to it; here the changed
  mapping is stored back under its key.
\<close>

definition update_at :: "yaml \<Rightarrow> string \<Rightarrow> (yaml \<Rightarrow> py_exception + yaml) \<Rightarrow> py_exception + yaml" where
  "update_at d k f = py_bind (getitem d k) (\<lambda>sub. py_bind (f sub) (\<lambda>sub'. setitem d k sub'))"

text \<open>\<open>'models' in params and which in params['models']\<close>.\<close>

definition has_model :: "yaml \<Rightarrow> string \<Rightarrow> py_exception + bool" where
  "has_model params which =
     py_bind (py_contains ''models'' params) (\<lambda>present.
       if present then py_bind (getitem params ''models'') (py_contains which) else Inr False)"

definition chat_overrides :: "string \<Rightarrow> (string \<times> yaml) list" where
  "chat_overrides model_name =
     [(''model_provider'', YStr ''openai''), (''auth_type'', YStr ''api_key''),
      (''api_key'', YStr ''ollama''), (''api_base'', YStr ''http://localhost:11434/v1''),
      (''model'', YStr model_name), (''concurrent_requests'', YInt 1),
      (''max_retries'', YInt 10), (''request_timeout'', YFloat 3600)]"

definition embed_overrides :: "(string \<times> yaml) list" where
  "embed_overrides =
     [(''model_provider'', YStr ''openai''), (''auth_type'', YStr ''api_key''),
      (''api_key'', YStr ''ollama''), (''api_base'', YStr ''http://localhost:11434/v1''),
      (''model'', YStr ''nomic-embed-text''), (''request_timeout'', YFloat 600)]"

definition patch_model :: "string \<Rightarrow> (string \<times> yaml) list \<Rightarrow> yaml \<Rightarrow> py_exception + yaml" where
  "patch_model which overrides params =
     py_bind (has_model params which) (\<lambda>present.
       if present
       then update_at params ''models'' (\<lambda>models.
              update_at models which (\<lambda>sub. set_items sub overrides))
       else Inr params)"

definition patch_block :: "string \<Rightarrow> (string \<times> yaml) list \<Rightarrow> yaml \<Rightarrow> py_exception + yaml" where
  "patch_block key overrides params =
     py_bind (py_contains key params) (\<lambda>present.
       if present then update_at params key (\<lambda>sub. set_items sub overrides) else Inr params)"

text \<open>The four blocks of overwrites, in the order of the source.\<close>

definition apply_overrides :: "string \<Rightarrow> yaml \<Rightarrow> py_exception + yaml" where
  "apply_overrides model_name params =
     py_bind (patch_model ''default_chat_model'' (chat_overrides model_name) params) (\<lambda>p1.
     py_bind (patch_model ''default_embedding_model'' embed_overrides p1) (\<lambda>p2.
     py_bind (patch_block ''extract_graph'' [(''max_gleanings'', YInt 0)] p2) (\<lambda>p3.
     patch_block ''chunks'' [(''size'', YInt 2000), (''overlap'', YInt 200)] p3)))"

text \<open>What is found at \<open>rag_project/settings.yaml\<close>.\<close>

datatype path_state = Absent | Directory | RegularFile string

text \<open>
  The two functions the source asks of the name \<open>yaml\<close>: \<open>safe_load\<close> on the text of
  the file and \<open>dump\<close> of the document.
\<close>

record yaml_module =
  safe_load :: "string \<Rightarrow> py_exception + yaml"
  dump :: "yaml \<Rightarrow> string"

definition open_read :: "path_state \<Rightarrow> py_exception + string" where
  "open_read file =
     (case file of
        RegularFile text \<Rightarrow> Inr text
      | Directory \<Rightarrow> Inl (Raised OSError ''[Errno 21] Is a directory'')
      | Absent \<Rightarrow> Inl (Raised OSError ''[Errno 2] No such file or directory''))"

text \<open>
  The body of the \<open>try\<close>: the new text of the file. The file is opened before the name
  \<open>yaml\<close> is read.
\<close>

definition update_settings_try ::
  "string list \<Rightarrow> yaml_module \<Rightarrow> string \<Rightarrow> path_state \<Rightarrow> py_exception + string" where
  "update_settings_try globals ym model_name file =
     py_bind (open_read file) (\<lambda>text.
     py_bind (load_global globals ''yaml'') (\<lambda>_.
     py_bind (safe_load ym text) (\<lambda>params.
     py_bind (apply_overrides model_name params) (\<lambda>params'.
     Inr (dump ym params')))))"

text \<open>\<open>update_settings(model_name)\<close>: the pair it returns and the file it leaves.\<close>

definition update_settings_in ::
  "string list \<Rightarrow> yaml_module \<Rightarrow> string \<Rightarrow> path_state \<Rightarrow> (bool \<times> string) \<times> path_state" where
  "update_settings_in globals ym model_name file =
     (if file = Absent then ((False, ''settings.yaml not found. Run Init first.''), file)
      else
        case update_settings_try globals ym model_name file of
          Inl e \<Rightarrow> ((False, ''Failed to update settings: '' @ exc_str e), file)
        | Inr text' \<Rightarrow> ((True, ''Updated settings.yaml for Ollama.''), RegularFile text'))"

text \<open>
  A call with positional arguments. The function has the one parameter
  \<open>model_name="gpt-oss:20b-cloud"\<close>.
\<close>

definition update_settings_call ::
  "string list \<Rightarrow> yaml_module \<Rightarrow> string list \<Rightarrow> path_state
     \<Rightarrow> py_exception + ((bool \<times> string) \<times> path_state)" where
  "update_settings_call globals ym args file =
     (case args of
        [] \<Rightarrow> Inr (update_settings_in globals ym ''gpt-oss:20b-cloud'' file)
      | [model_name] \<Rightarrow> Inr (update_settings_in globals ym model_name file)
      | _ \<Rightarrow> Inl (Raised TypeError
                 (''update_settings() takes from 0 to 1 positional arguments but '' @
                  digits (length args) @ '' were given'')))"

definition update_settings ::
  "yaml_module \<Rightarrow> string \<Rightarrow> path_state \<Rightarrow> (bool \<times> string) \<times> path_state" where
  "update_settings = update_settings_in utils_globals"

text \<open>
  The handler of the Update Settings button in app.py:
  \<open>utils.update_settings(model_name, api_base, api_key)\<close>.
\<close>

definition update_settings_button ::
  "yaml_module \<Rightarrow> string \<Rightarrow> string \<Rightarrow> string \<Rightarrow> path_state
     \<Rightarrow> py_exception + ((bool \<times> string) \<times> path_state)" where
  "update_settings_button ym model_name api_base api_key file =
     update_settings_call utils_globals ym [model_name, api_base, api_key] file"

text \<open>A settings document with the two model blocks, for running the overwrites.\<close>

definition settings0 :: yaml where
  "settings0 =
     YDict [(''models'',
             YDict [(''default_chat_model'',
                     YDict [(''api_base'', YStr ''https://api.openai.com/v1''),
                            (''model'', YStr ''gpt-4o''), (''api_key'', YStr ''sk-0'')]),
                    (''default_embedding_model'',
                     YDict [(''model'', YStr ''text-embedding-3-small'')])]),
            (''chunks'', YDict [(''size'', YInt 1200), (''overlap'', YInt 100)])]"

section \<open>The artifact loader (utils.py, get_latest_output_dir and load_parquet_files)\<close>

text \<open>
  A table as \<open>pandas\<close> holds it: the column names and the rows. \<open>pd.DataFrame()\<close> has
  neither, and \<open>df.empty\<close> holds when either is missing.
\<close>

record dataframe =
  columns :: "string list"
  records :: "string list list"

definition empty_dataframe :: dataframe where
  "empty_dataframe = \<lparr>columns = [], records = []\<rparr>"

definition df_empty :: "dataframe \<Rightarrow> bool" where
  "df_empty df = (columns df = [] \<or> records df = [])"

text \<open>
  What the file system and \<open>pandas\<close> answer, path by path: \<open>os.path.exists\<close>,
  \<open>os.path.isdir\<close>, \<open>os.listdir\<close>, \<open>os.path.getmtime\<close> and \<open>pd.read_parquet\<close>.
  The last three can raise.
\<close>

record os_view =
  path_exists :: "string \<Rightarrow> bool"
  isdir :: "string \<Rightarrow> bool"
  listdir :: "string \<Rightarrow> py_exception + string list"
  getmtime :: "string \<Rightarrow> py_exception + int"
  read_parquet :: "string \<Rightarrow> py_exception + dataframe"

text \<open>\<open>os.path.join\<close> of two components, as \<open>posixpath\<close> defines it.\<close>

definition path_join :: "string \<Rightarrow> string \<Rightarrow> string" where
  "path_join a b =
     (if b \<noteq> [] \<and> hd b = CHR ''/'' then b
      else if a = [] \<or> last a = CHR ''/'' then a @ b
      else a @ ''/'' @ b)"

text \<open>
  \<open>max(subdirs, key=os.path.getmtime)\<close> on a list that is not empty: the keys are
  computed from left to right and the first of the largest wins.
\<close>

fun max_from :: "os_view \<Rightarrow> string \<Rightarrow> int \<Rightarrow> string list \<Rightarrow> py_exception + string" where
  "max_from os best best_key [] = Inr best"
| "max_from os best best_key (x # xs) =
     (case getmtime os x of
        Inl e \<Rightarrow> Inl e
      | Inr k \<Rightarrow> if best_key < k then max_from os x k xs else max_from os best best_key xs)"

fun max_by_mtime :: "os_view \<Rightarrow> string list \<Rightarrow> py_exception + string" where
  "max_by_mtime os [] = Inl (Raised OtherException ''max() iterable argument is empty'')"
| "max_by_mtime os (x # xs) =
     (case getmtime os x of Inl e \<Rightarrow> Inl e | Inr k \<Rightarrow> max_from os x k xs)"

definition get_latest_output_dir :: "os_view \<Rightarrow> py_exception + string option" where
  "get_latest_output_dir os =
     (let output_base = path_join RAG_DIR ''output'' in
      if \<not> path_exists os output_base then Inr None
      else if path_exists os (path_join output_base ''entities.parquet'')
        then Inr (Some output_base)
      else
        py_bind (listdir os output_base) (\<lambda>names.
          let subdirs = map (path_join output_base)
                          (filter (\<lambda>d. isdir os (path_join output_base d)) names) in
          if subdirs = [] then Inr None
          else
            py_bind (max_by_mtime os subdirs) (\<lambda>latest_subdir.
              let artifacts_path = path_join latest_subdir ''artifacts'' in
              Inr (Some (if path_exists os artifacts_path then artifacts_path
                         else latest_subdir)))))"

definition file_patterns :: "(string \<times> string list) list" where
  "file_patterns =
     [(''entities'', [''entities.parquet'', ''create_final_entities.parquet'']),
      (''relationships'', [''relationships.parquet'', ''create_final_relationships.parquet'']),
      (''reports'', [''community_reports.parquet'', ''create_final_community_reports.parquet''])]"

text \<open>
  The inner loop over the patterns of one key: the first file that exists and that
  \<open>pd.read_parquet\<close> reads; an exception of the read is swallowed and the next pattern
  is tried.
\<close>

fun load_first :: "os_view \<Rightarrow> string \<Rightarrow> string list \<Rightarrow> dataframe option" where
  "load_first os artifacts_dir [] = None"
| "load_first os artifacts_dir (pattern # rest) =
     (let path = path_join artifacts_dir pattern in
      if path_exists os path
      then (case read_parquet os path of
              Inr df \<Rightarrow> Some df
            | Inl e \<Rightarrow> load_first os artifacts_dir rest)
      else load_first os artifacts_dir rest)"

definition load_key :: "os_view \<Rightarrow> string \<Rightarrow> string list \<Rightarrow> dataframe" where
  "load_key os artifacts_dir patterns =
     (case load_first os artifacts_dir patterns of Some df \<Rightarrow> df | None \<Rightarrow> empty_dataframe)"

text \<open>
  \<open>load_parquet_files\<close>: \<open>None\<close>, or the dictionary \<open>data\<close> with its three keys in
  insertion order.
\<close>

definition load_parquet_files :: "os_view \<Rightarrow> py_exception + (string \<times> dataframe) list option" where
  "load_parquet_files os =
     py_bind (get_latest_output_dir os) (\<lambda>artifacts_dir.
       case artifacts_dir of
         None \<Rightarrow> Inr None
       | Some d \<Rightarrow>
           if d = [] then Inr None
           else Inr (Some (map (\<lambda>(key, patterns). (key, load_key os d patterns)) file_patterns)))"

text \<open>Two output locations that hold one relationships file and nothing else.\<close>

definition relationships0 :: dataframe where
  "relationships0 =
     \<lparr>columns = [''source'', ''target''], records = [[''IIM'', ''CAT''], [''CAT'', ''WAT'']]\<rparr>"

text \<open>The file lies in the output directory itself, which has no subdirectory.\<close>

definition flat_output :: os_view where
  "flat_output =
     \<lparr>path_exists = (\<lambda>p. p \<in> set [''rag_project'', ''rag_project/output'',
                                      ''rag_project/output/relationships.parquet'']),
      isdir = (\<lambda>p. p \<in> set [''rag_project'', ''rag_project/output'']),
      listdir = (\<lambda>p. if p = ''rag_project/output'' then Inr [''relationships.parquet'']
                      else if p = ''rag_project'' then Inr [''output'']
                      else Inl (Raised OSError ''[Errno 20] Not a directory'')),
      getmtime = (\<lambda>p. Inr 100),
      read_parquet = (\<lambda>p. if p = ''rag_project/output/relationships.parquet''
                           then Inr relationships0
                           else Inl (Raised OSError ''[Errno 2] No such file or directory''))\<rparr>"

text \<open>The file lies in the only subdirectory of the output directory.\<close>

definition nested_output :: os_view where
  "nested_output =
     \<lparr>path_exists = (\<lambda>p. p \<in> set [''rag_project'', ''rag_project/output'',
                                      ''rag_project/output/run1'',
                                      ''rag_project/output/run1/relationships.parquet'']),
      isdir = (\<lambda>p. p \<in> set [''rag_project'', ''rag_project/output'',
                                ''rag_project/output/run1'']),
      listdir = (\<lambda>p. if p = ''rag_project/output/run1'' then Inr [''relationships.parquet'']
                      else if p = ''rag_project/output'' then Inr [''run1'']
                      else if p = ''rag_project'' then Inr [''output'']
                      else Inl (Raised OSError ''[Errno 20] Not a directory'')),
      getmtime = (\<lambda>p. Inr 100),
      read_parquet = (\<lambda>p. if p = ''rag_project/output/run1/relationships.parquet''
                           then Inr relationships0
                           else Inl (Raised OSError ''[Errno 2] No such file or directory''))\<rparr>"

section \<open>Properties of the history store\<close>

lemma largest_rowid_nonneg: "0 \<le> largest_rowid rs"
  by (induction rs) auto

lemma largest_rowid_ge: "r \<in> set rs \<Longrightarrow> id' r \<le> largest_rowid rs"
  by (induction rs) auto

lemma high_water_bounds:
  "sqlite_sequence s \<le> high_water s" "0 \<le> high_water s"
  "r \<in> set (query_history s) \<Longrightarrow> id' r \<le> high_water s"
  using largest_rowid_nonneg [of "query_history s"] largest_rowid_ge [of r "query_history s"]
  by (auto simp: high_water_def)

lemma save_query_Inr:
  assumes "save_query q m r clk s = Inr (i, s')"
  shows "i = high_water s + 1"
    and "sqlite_sequence s' = i"
    and "query_history s' = query_history s @
          [\<lparr>id' = i, timestamp = strftime (now clk), query = q, method' = m, response = r,
            created_at = current_timestamp clk\<rparr>]"
  using assms by (auto simp: save_query_def Let_def split: if_splits sum.splits)

lemma varint_len_pos: "0 < varint_len v"
  by (simp add: varint_len_def)

lemma record_bytes_ge:
  "int (length q) \<le> record_bytes q m r \<and> int (length m) \<le> record_bytes q m r \<and>
   int (length r) \<le> record_bytes q m r"
  using varint_len_pos [of "2 * int (length q) + 13"] varint_len_pos [of "2 * int (length m) + 13"]
    varint_len_pos [of "2 * int (length r) + 13"]
  by (simp add: record_bytes_def Let_def)

lemma bind_text_ok:
  "\<not> has_surrogate t \<Longrightarrow> int (length t) \<le> sqlite_max_length \<Longrightarrow> bind_text t = Inr ()"
  by (simp add: bind_text_def sqlite_max_length_def int_max_def)

lemma save_query_succeeds:
  assumes "storable q m r" "high_water s < max_rowid"
  shows "\<exists>i s'. save_query q m r clk s = Inr (i, s')"
proof -
  from assms(1) have fits: "record_bytes q m r \<le> sqlite_max_length"
    and sur: "\<not> has_surrogate q" "\<not> has_surrogate m" "\<not> has_surrogate r"
    by (simp_all add: storable_def)
  from fits record_bytes_ge [of q m r]
  have "int (length q) \<le> sqlite_max_length" "int (length m) \<le> sqlite_max_length"
    "int (length r) \<le> sqlite_max_length" by simp_all
  with sur have "bind_text q = Inr ()" "bind_text m = Inr ()" "bind_text r = Inr ()"
    by (simp_all add: bind_text_ok)
  with fits assms(2) show ?thesis by (simp add: save_query_def Let_def)
qed


lemma storable_literals:
  "storable ''Q1'' ''local'' ''A1''" "storable ''Q2'' ''global'' ''A2''"
  "storable ''Q3'' ''local'' ''A3''" "storable [] [] []"
  by (simp_all add: storable_def record_bytes_def varint_len_def sqlite_max_length_def)

lemma insort_key_snoc:
  "f a \<le> f x \<Longrightarrow> insort_key f a (ys @ [x]) = insort_key f a ys @ [x]"
  by (induction ys) auto

lemma foldr_insort_key_last:
  "\<forall>y\<in>set ys. f y \<le> f x \<Longrightarrow> foldr (insort_key f) ys [x] = sort_key f ys @ [x]"
  by (induction ys) (auto simp: sort_key_def insort_key_snoc)

lemma sort_key_snoc:
  "\<forall>y\<in>set ys. f y \<le> f x \<Longrightarrow> sort_key f (ys @ [x]) = sort_key f ys @ [x]"
  using foldr_insort_key_last [of ys f x] by (simp add: sort_key_def)

lemma distinct_map_sort_key:
  "distinct (map f (sort_key f xs)) = distinct (map f xs)"
  by (induction xs) (auto simp: distinct_insort_key)

lemma id_dict_of_row: "id' (dict_of_row r) = id' r"
  by (simp add: dict_of_row_def)

lemma ids_get_all_queries:
  "map id' (get_all_queries s) = rev (map id' (sort_key id' (query_history s)))"
  by (simp add: get_all_queries_def rev_map id_dict_of_row comp_def)

lemma get_all_queries_decreasing:
  "distinct (map id' (query_history s)) \<Longrightarrow> sorted_wrt (>) (map id' (get_all_queries s))"
  by (simp add: ids_get_all_queries sorted_wrt_rev strict_sorted_iff distinct_map_sort_key)

lemma length_get_all_queries: "length (get_all_queries s) = length (query_history s)"
  by (simp add: get_all_queries_def)

lemma get_all_queries_after_save:
  assumes "save_query q m r clk s = Inr (i, s')"
  shows "get_all_queries s' =
    \<lparr>id' = i, timestamp = strftime (now clk), query = q, method' = m, response = r\<rparr>
      # get_all_queries s"
proof -
  let ?row = "\<lparr>id' = i, timestamp = strftime (now clk), query = q, method' = m, response = r,
            created_at = current_timestamp clk\<rparr>"
  have i: "i = high_water s + 1" and rows: "query_history s' = query_history s @ [?row]"
    using save_query_Inr [OF assms] by simp_all
  have "\<forall>y\<in>set (query_history s). id' y \<le> id' ?row"
    using high_water_bounds(3) [of _ s] i by fastforce
  then have "sort_key id' (query_history s') = sort_key id' (query_history s) @ [?row]"
    unfolding rows by (rule sort_key_snoc)
  then show ?thesis
    by (simp add: get_all_queries_def dict_of_row_def)
qed

lemma strftime_nonempty: "strftime d \<noteq> []"
  by (simp add: strftime_def)



lemma run_calls_sequence:
  "run_calls s cs = (rs, s') \<Longrightarrow>
     sqlite_sequence s \<le> sqlite_sequence s' \<and>
     (\<forall>i\<in>set (assigned_ids rs). sqlite_sequence s < i \<and> i \<le> sqlite_sequence s') \<and>
     sorted_wrt (<) (assigned_ids rs)"
proof (induction cs arbitrary: s rs s')
  case Nil
  then show ?case by simp
next
  case (Cons c cs)
  obtain res s1 where c: "run_call s c = (res, s1)" by (cases "run_call s c")
  obtain ress s2 where cs: "run_calls s1 cs = (ress, s2)" by (cases "run_calls s1 cs")
  from Cons.prems c cs have rs: "rs = res # ress" and s': "s' = s2" by simp_all
  note IH = Cons.IH [OF cs]
  show ?case
  proof (cases c)
    case (SaveQuery q m r clk)
    show ?thesis
    proof (cases "save_query q m r clk s")
      case (Inl e)
      with c SaveQuery have "res = SaveFailed e" "s1 = s" by simp_all
      with IH rs s' show ?thesis by simp
    next
      case (Inr p)
      obtain i t where p: "p = (i, t)" by (cases p)
      with c SaveQuery Inr have res: "res = Saved i" and s1: "s1 = t" by simp_all
      from Inr p have sv: "save_query q m r clk s = Inr (i, t)" by simp
      have "i = high_water s + 1" "sqlite_sequence t = i"
        using save_query_Inr [OF sv] by simp_all
      with high_water_bounds(1) [of s] have "sqlite_sequence s < i" "sqlite_sequence s1 = i"
        using s1 by simp_all
      with IH rs s' res show ?thesis by fastforce
    qed
  next
    case ClearHistory
    with c have "res = Cleared" "sqlite_sequence s1 = sqlite_sequence s"
      by (auto simp: clear_history_def)
    with IH rs s' show ?thesis by simp
  qed
qed

lemma saves_only_rows:
  "run_calls s (map save_call args) = (rs, s') \<Longrightarrow> list_all is_saved rs \<Longrightarrow>
     map id' (query_history s') = map id' (query_history s) @ assigned_ids rs \<and>
     length rs = length args"
proof (induction args arbitrary: s rs s')
  case Nil
  then show ?case by simp
next
  case (Cons a args)
  obtain q m r clk where a: "a = (q, m, r, clk)" by (cases a)
  obtain res s1 where c: "run_call s (SaveQuery q m r clk) = (res, s1)"
    by (cases "run_call s (SaveQuery q m r clk)")
  obtain ress s2 where cs: "run_calls s1 (map save_call args) = (ress, s2)"
    by (cases "run_calls s1 (map save_call args)")
  from Cons.prems(1) a c cs have rs: "rs = res # ress" and s': "s' = s2"
    by simp_all
  from Cons.prems(2) rs have ok: "is_saved res" "list_all is_saved ress" by simp_all
  note IH = Cons.IH [OF cs ok(2)]
  from ok(1) obtain i where res: "res = Saved i" by (cases res) simp_all
  with c have sv: "save_query q m r clk s = Inr (i, s1)"
    by (auto split: sum.splits)
  from save_query_Inr(3) [OF sv] have "map id' (query_history s1) = map id' (query_history s) @ [i]"
    by simp
  with IH rs s' res show ?case by simp
qed


lemma assigned_ids_all_saved:
  "list_all is_saved rs \<Longrightarrow> length (assigned_ids rs) = length rs"
  by (induction rs rule: assigned_ids.induct) simp_all


lemma largest_rowid_append:
  "largest_rowid (rs @ rs') = max (largest_rowid rs) (largest_rowid rs')"
  using largest_rowid_nonneg [of rs'] by (induction rs) auto

lemma high_water_after_save:
  assumes "save_query q m r clk s = Inr (i, s')"
  shows "high_water s' = high_water s + 1"
proof -
  have "0 \<le> largest_rowid (query_history s)" by (rule largest_rowid_nonneg)
  then show ?thesis
    using save_query_Inr [OF assms]
    by (simp add: high_water_def largest_rowid_append max_def)
qed

lemma saves_succeed:
  "\<forall>(q, m, r, clk)\<in>set args. storable q m r \<Longrightarrow>
   high_water s + int (length args) \<le> max_rowid \<Longrightarrow>
     list_all is_saved (fst (run_calls s (map save_call args)))"
proof (induction args arbitrary: s)
  case Nil
  then show ?case by simp
next
  case (Cons a args)
  obtain q m r clk where a: "a = (q, m, r, clk)" by (cases a)
  from Cons.prems(1) a have st: "storable q m r"
    and rest: "\<forall>(q, m, r, clk)\<in>set args. storable q m r" by simp_all
  from Cons.prems(2) have "high_water s < max_rowid" by simp
  with st obtain i s1 where sv: "save_query q m r clk s = Inr (i, s1)"
    using save_query_succeeds by blast
  have "high_water s1 = high_water s + 1"
    by (rule high_water_after_save [OF sv])
  with Cons.prems(2) have "high_water s1 + int (length args) \<le> max_rowid" by simp
  from Cons.IH [OF rest this] a sv show ?case
    by (auto split: prod.splits)
qed



text \<open>
  C9: whatever the store holds, also nothing, \<open>clear_history\<close> returns a store,
  and \<open>get_query_count\<close> right after it returns 0.
\<close>

theorem clear_history_then_count:
  "get_query_count (clear_history s) = 0"
  by (simp add: get_query_count_def clear_history_def)

text \<open>
  C1: after \<open>N\<close> \<open>save_query\<close> calls that all succeeded, made on a store with no
  row, \<open>get_query_count\<close> returns \<open>N\<close> and \<open>get_all_queries\<close> returns
  \<open>N\<close> records whose ids strictly decrease along the list.
\<close>

theorem save_sequence_count_and_order:
  assumes "query_history s = []"
    and "run_calls s (map save_call args) = (rs, s')"
    and "list_all is_saved rs"
  shows "get_query_count s' = int (length args) \<and>
         length (get_all_queries s') = length args \<and>
         sorted_wrt (>) (map id' (get_all_queries s'))"
proof -
  from saves_only_rows [OF assms(2,3)] assms(1)
  have ids: "map id' (query_history s') = assigned_ids rs" and len: "length rs = length args"
    by simp_all
  have "length (query_history s') = length (map id' (query_history s'))" by simp
  also have "\<dots> = length args"
    unfolding ids using assigned_ids_all_saved [OF assms(3)] len by simp
  finally have n: "length (query_history s') = length args" .
  from run_calls_sequence [OF assms(2)] have "sorted_wrt (<) (assigned_ids rs)" by simp
  then have "distinct (map id' (query_history s'))"
    unfolding ids by (simp add: strict_sorted_iff)
  from get_all_queries_decreasing [OF this] n show ?thesis
    by (simp add: get_query_count_def length_get_all_queries)
qed

theorem save_sequence_count_and_order_witness:
  "query_history (init_db None) = [] \<and>
   list_all is_saved (fst (run_calls (init_db None)
      (map save_call [(''Q1'', ''local'', ''A1'', clock0), (''Q2'', ''global'', ''A2'', clock0),
                      (''Q3'', ''local'', ''A3'', clock0)]))) \<and>
   get_query_count (snd (run_calls (init_db None)
      (map save_call [(''Q1'', ''local'', ''A1'', clock0), (''Q2'', ''global'', ''A2'', clock0),
                      (''Q3'', ''local'', ''A3'', clock0)]))) = 3 \<and>
   map id' (get_all_queries (snd (run_calls (init_db None)
      (map save_call [(''Q1'', ''local'', ''A1'', clock0), (''Q2'', ''global'', ''A2'', clock0),
                      (''Q3'', ''local'', ''A3'', clock0)])))) = [3, 2, 1]"
proof -
  let ?args = "[(''Q1'', ''local'', ''A1'', clock0), (''Q2'', ''global'', ''A2'', clock0),
                (''Q3'', ''local'', ''A3'', clock0)]"
  let ?run = "run_calls (init_db None) (map save_call ?args)"
  have e: "query_history (init_db None) = []" by (simp add: init_db_def)
  have ok: "list_all is_saved (fst ?run)" by code_simp
  have ids: "map id' (get_all_queries (snd ?run)) = [3, 2, 1]" by code_simp
  from save_sequence_count_and_order [OF e _ ok, of ?args "snd ?run"]
  have "get_query_count (snd ?run) = 3" by simp
  with e ok ids show ?thesis by blast
qed


text \<open>
  C6: in every interleaving of \<open>save_query\<close> and \<open>clear_history\<close> calls the ids
  handed out strictly increase in the order of the inserts, so none is handed out twice,
  whatever was deleted in between; on a store as SQLite keeps it they are also larger than
  the id of every row the store held at the start.
\<close>

theorem ids_increasing_never_reused:
  "sorted_wrt (<) (assigned_ids (fst (run_calls s calls))) \<and>
   (store_ok s \<longrightarrow>
      (\<forall>i\<in>set (assigned_ids (fst (run_calls s calls))).
         \<forall>r\<in>set (query_history s). id' r < i))"
proof -
  obtain rs s' where run: "run_calls s calls = (rs, s')" by (cases "run_calls s calls")
  note seq = run_calls_sequence [OF run]
  have "id' r < i" if "store_ok s" "i \<in> set (assigned_ids rs)" "r \<in> set (query_history s)"
    for i r
  proof -
    from that(3) have "id' r \<le> largest_rowid (query_history s)" by (rule largest_rowid_ge)
    also from that(1) have "\<dots> \<le> sqlite_sequence s" by (simp add: store_ok_def)
    also from seq that(2) have "\<dots> < i" by blast
    finally show ?thesis .
  qed
  with seq run show ?thesis by simp
qed

theorem ids_increasing_never_reused_witness:
  "store_ok (init_db None) \<and>
   assigned_ids (fst (run_calls (init_db None)
     [SaveQuery ''Q1'' ''local'' ''A1'' clock0, SaveQuery ''Q2'' ''global'' ''A2'' clock0,
      ClearHistory, SaveQuery ''Q3'' ''local'' ''A3'' clock0])) = [1, 2, 3] \<and>
   sorted_wrt (<) (assigned_ids (fst (run_calls (init_db None)
     [SaveQuery ''Q1'' ''local'' ''A1'' clock0, SaveQuery ''Q2'' ''global'' ''A2'' clock0,
      ClearHistory, SaveQuery ''Q3'' ''local'' ''A3'' clock0])))"
proof -
  let ?calls = "[SaveQuery ''Q1'' ''local'' ''A1'' clock0, SaveQuery ''Q2'' ''global'' ''A2'' clock0,
      ClearHistory, SaveQuery ''Q3'' ''local'' ''A3'' clock0]"
  have ok: "store_ok (init_db None)" by (simp add: store_ok_def init_db_def)
  have ids: "assigned_ids (fst (run_calls (init_db None) ?calls)) = [1, 2, 3]" by code_simp
  from ids_increasing_never_reused [of "init_db None" ?calls] ok ids show ?thesis by blast
qed

text \<open>
  C7: after \<open>save_query("Q1", "local", "A1")\<close> the first element of
  \<open>get_all_queries()\<close> has the query \<open>Q1\<close>, the method \<open>local\<close> and the
  response \<open>A1\<close>, the id the call returned, which is positive, and a timestamp that is
  not empty. The call succeeds on every store whose ids are not used up.
\<close>

theorem save_then_first_round_trip:
  assumes "high_water s < max_rowid"
  shows "\<exists>i s' first rest.
           save_query ''Q1'' ''local'' ''A1'' clk s = Inr (i, s') \<and>
           get_all_queries s' = first # rest \<and>
           query first = ''Q1'' \<and> method' first = ''local'' \<and> response first = ''A1'' \<and>
           id' first = i \<and> 0 < i \<and> timestamp first \<noteq> []"
proof -
  from save_query_succeeds [OF storable_literals(1) assms] obtain i s'
    where sv: "save_query ''Q1'' ''local'' ''A1'' clk s = Inr (i, s')" by blast
  have "0 < i" using save_query_Inr(1) [OF sv] high_water_bounds(2) [of s] by simp
  with sv get_all_queries_after_save [OF sv] strftime_nonempty [of "now clk"]
  show ?thesis by simp
qed

theorem save_then_first_round_trip_witness:
  "high_water (init_db None) < max_rowid \<and>
   (\<exists>i s' first rest.
           save_query ''Q1'' ''local'' ''A1'' clock0 (init_db None) = Inr (i, s') \<and>
           get_all_queries s' = first # rest \<and>
           query first = ''Q1'' \<and> method' first = ''local'' \<and> response first = ''A1'' \<and>
           id' first = i \<and> 0 < i \<and> timestamp first \<noteq> [])"
proof -
  have h: "high_water (init_db None) < max_rowid"
    by (simp add: high_water_def init_db_def max_rowid_def)
  from save_then_first_round_trip [OF h, of clock0] h show ?thesis by blast
qed




section \<open>Properties of the progress classifier\<close>

lemma contains_ci_iff:
  "contains_ci kw line \<longleftrightarrow> (\<exists>p m t. line = p @ m @ t \<and> lower m = lower kw)"
  unfolding contains_ci_def sublist_def lower_def
  by (auto simp: map_eq_append_conv append_eq_map_conv) metis+

lemma lower_keywords:
  "lower ''Extract Graph Progress'' = ''extract graph progress''"
  "lower ''Pipeline complete'' = ''pipeline complete''"
  "lower ''load_input'' = ''load_input''"
  "lower ''text_units'' = ''text_units''"
  "lower ''extract_graph'' = ''extract_graph''"
  "lower ''starting'' = ''starting''"
  "lower ''finalize_graph'' = ''finalize_graph''"
  "lower ''communities'' = ''communities''"
  "lower ''community_reports'' = ''community_reports''"
  "lower ''embeddings'' = ''embeddings''"
  by code_simp+

text \<open>
  The chain itself: the first branch that matches decides. A line with "Extract Graph
  Progress" in any case gets 50 when no branch above that one matches it, and a line with
  "Pipeline complete" gets 100 when none of the eight branches above the last matches it.
\<close>

lemma classify_first_match_wins:
  "(contains_ci ''Extract Graph Progress'' line \<and>
    \<not> contains_ci ''load_input'' line \<and> \<not> contains_ci ''text_units'' line \<and>
    \<not> (contains_ci ''extract_graph'' line \<and> contains_ci ''starting'' line)
      \<longrightarrow> classify line = Some (50, ''Extracting graph...'')) \<and>
   (contains_ci ''Pipeline complete'' line \<and>
    \<not> contains_ci ''load_input'' line \<and> \<not> contains_ci ''text_units'' line \<and>
    \<not> (contains_ci ''extract_graph'' line \<and> contains_ci ''starting'' line) \<and>
    \<not> contains_ci ''Extract Graph Progress'' line \<and> \<not> contains_ci ''finalize_graph'' line \<and>
    \<not> contains_ci ''communities'' line \<and> \<not> contains_ci ''community_reports'' line \<and>
    \<not> contains_ci ''embeddings'' line
      \<longrightarrow> classify line = Some (100, ''Complete!''))"
  unfolding contains_ci_def lower_keywords
  by (simp add: classify_def Let_def)

text \<open>A keyword of an earlier branch in the same line takes the line.\<close>

lemma classify_earlier_keyword_wins:
  "contains_ci ''Extract Graph Progress'' ''load_input: Extract Graph Progress 1/4'' \<and>
   classify ''load_input: Extract Graph Progress 1/4'' = Some (10, ''Loading documents...'') \<and>
   contains_ci ''Pipeline complete'' ''Pipeline complete: embeddings written'' \<and>
   classify ''Pipeline complete: embeddings written'' = Some (90, ''Generating embeddings...'')"
  by code_simp

lemma progress_after_lines:
  "progress (stream_lines st lines) = last (progress st # reported lines)"
  by (induction lines arbitrary: st) (auto simp: handle_line_def Let_def split: option.splits)

lemma progress_trace_sorted:
  "sorted (progress st # progress_trace st lines) \<longleftrightarrow> sorted (progress st # reported lines)"
proof (induction lines arbitrary: st)
  case Nil
  then show ?case by simp
next
  case (Cons line rest)
  show ?case
  proof (cases "classify line")
    case None
    then have "progress (handle_line st line) = progress st"
      by (simp add: handle_line_def)
    with Cons.IH [of "handle_line st line"] None show ?thesis by auto
  next
    case (Some pt)
    obtain p t where "pt = (p, t)" by (cases pt)
    with Some have "progress (handle_line st line) = p"
      by (simp add: handle_line_def)
    with Cons.IH [of "handle_line st line"] Some \<open>pt = (p, t)\<close> show ?thesis
      by (simp add: sorted2 del: sorted_wrt.simps)
  qed
qed

text \<open>
  The loop sets the bar from each line alone: after it the bar shows the percentage of the
  last line that matched, and the bar never went down exactly when the percentages of the
  matching lines came in non-decreasing order.
\<close>

lemma progress_follows_last_match:
  "progress (stream_lines (start_session old_logs) lines) = last (0 # reported lines) \<and>
   (sorted (progress_trace (start_session old_logs) lines) \<longleftrightarrow> sorted (reported lines))"
  using progress_after_lines [of "start_session old_logs" lines]
    progress_trace_sorted [of "start_session old_logs" lines]
  by (simp add: start_session_def)

section \<open>Properties of the Start Indexing handler\<close>



text \<open>
  With \<open>subprocess\<close> bound the child is started and its lines reach the chain: the bar
  then follows the lines, and it can go down.
\<close>

lemma start_indexing_in_with_subprocess:
  assumes "''os'' \<in> set globals" "''subprocess'' \<in> set globals"
    and "os_popen [graphrag_cmd, ''index'', ''--root'', RAG_DIR, ''--verbose''] = Process printed 0"
  shows "bar_values (start_indexing_in globals os_popen graphrag_cmd old_logs) =
           0 # progress_trace (start_session old_logs) (takeWhile (\<lambda>line. line \<noteq> []) printed)
             @ [100]"
  using assms
  by (simp add: start_indexing_in_def run_indexing_in_def load_global_def py_bind_def Let_def)

lemma child0_trace:
  "progress_trace (start_session [])
     [''Workflow complete: create_communities'', ''Extract Graph Progress: 1/4'',
      ''Workflow started: create_final_text_units''] = [70, 50, 20]"
  by code_simp

lemma start_indexing_with_subprocess_child0:
  "bar_values (start_indexing_in globals_with_subprocess child0 graphrag_cmd []) =
     [0, 70, 50, 20, 100]"
proof -
  have "bar_values (start_indexing_in globals_with_subprocess child0 graphrag_cmd []) =
          0 # progress_trace (start_session [])
                (takeWhile (\<lambda>line. line \<noteq> [])
                   [''Workflow complete: create_communities'', ''Extract Graph Progress: 1/4'',
                    ''Workflow started: create_final_text_units'']) @ [100]"
    by (rule start_indexing_in_with_subprocess)
      (simp_all add: globals_with_subprocess_def utils_globals_def child0_def)
  moreover have "takeWhile (\<lambda>line. line \<noteq> [])
        [''Workflow complete: create_communities'', ''Extract Graph Progress: 1/4'',
         ''Workflow started: create_final_text_units''] =
        [''Workflow complete: create_communities'', ''Extract Graph Progress: 1/4'',
         ''Workflow started: create_final_text_units'']"
    by simp
  ultimately have "bar_values (start_indexing_in globals_with_subprocess child0 graphrag_cmd []) =
      0 # [70, 50, 20] @ [100]"
    by (simp only: child0_trace)
  then show ?thesis by simp
qed



section \<open>Properties of the blocking query call\<close>

lemma os_bound: "load_global utils_globals ''os'' = Inr ()"
  by (simp add: load_global_def utils_globals_def)

lemma subprocess_unbound: "load_global utils_globals ''subprocess'' = Inl (name_error ''subprocess'')"
  by (simp add: load_global_def utils_globals_def)

text \<open>
  With \<open>subprocess\<close> bound the function does what its three branches say: the timeout
  message, the error text behind the marker, the standard output as it is.
\<close>

lemma run_query_in_with_subprocess:
  assumes "''os'' \<in> set globals" "''subprocess'' \<in> set globals"
  shows "os_exec [cmd, ''query'', ''--root'', RAG_DIR, ''--method'', m, ''--query'', q]
           = Runs seconds rc out err \<Longrightarrow>
         run_query_in globals os_exec cmd q m =
           (if 600 < seconds
            then Inr ''Query timed out. Local LLMs can be slow - try a simpler question or wait longer.''
            else if rc \<noteq> 0 then Inr (''Error: '' @ err) else Inr out)"
  using assms
  by (simp add: run_query_in_def run_query_try_def load_global_def py_bind_def subprocess_run_def)

text \<open>
  C2 (the defect): the module never imports \<open>subprocess\<close>. For every query, every method
  and every behaviour of the child, the body of the \<open>try\<close> raises \<open>NameError\<close>, and so
  does the matching of the first \<open>except\<close> clause: \<open>run_query\<close> raises, where the claim
  has it return a text in each of the three cases.
\<close>

theorem run_query_raises_name_error:
  "run_query os_exec graphrag_cmd q m = Inl (name_error ''subprocess'')"
  by (simp add: run_query_def run_query_in_def run_query_try_def os_bound subprocess_unbound
      py_bind_def)

section \<open>Properties of the settings projector\<close>

lemma digits_3: "digits (length [a, b, c]) = ''3''"
  by code_simp

lemma yaml_unbound: "load_global utils_globals ''yaml'' = Inl (name_error ''yaml'')"
  by (simp add: load_global_def utils_globals_def)

text \<open>
  The overwrites themselves take only the model name from the caller: the endpoint and the
  key are the constants of the source, and the embedding model is a constant too.
\<close>

lemma apply_overrides_settings0:
  "apply_overrides ''llama3'' settings0 =
     Inr (YDict [(''models'',
             YDict [(''default_chat_model'',
                     YDict [(''api_base'', YStr ''http://localhost:11434/v1''),
                            (''model'', YStr ''llama3''), (''api_key'', YStr ''ollama''),
                            (''model_provider'', YStr ''openai''),
                            (''auth_type'', YStr ''api_key''),
                            (''concurrent_requests'', YInt 1), (''max_retries'', YInt 10),
                            (''request_timeout'', YFloat 3600)]),
                    (''default_embedding_model'',
                     YDict [(''model'', YStr ''nomic-embed-text''),
                            (''model_provider'', YStr ''openai''),
                            (''auth_type'', YStr ''api_key''), (''api_key'', YStr ''ollama''),
                            (''api_base'', YStr ''http://localhost:11434/v1''),
                            (''request_timeout'', YFloat 600)])]),
            (''chunks'', YDict [(''size'', YInt 2000), (''overlap'', YInt 200)])])"
  by (simp add: apply_overrides_def patch_model_def patch_block_def has_model_def update_at_def
      chat_overrides_def embed_overrides_def settings0_def py_bind_def)

text \<open>
  C4 (the defect): the handler passes the model name, the endpoint and the key, and the
  function takes one argument, so the call raises \<open>TypeError\<close> whatever the three are
  and whatever the file holds. Called with the model name alone on an existing file, the
  function reads the name \<open>yaml\<close>, which the module never imports: it returns the failure
  pair and leaves the file as it was. No call rewrites the document.
\<close>

theorem update_settings_never_projects:
  "update_settings_button ym model_name api_base api_key file =
     Inl (Raised TypeError
            ''update_settings() takes from 0 to 1 positional arguments but 3 were given'') \<and>
   update_settings ym model_name (RegularFile text) =
     ((False, ''Failed to update settings: name '' @ [CHR 0x27] @ ''yaml'' @ [CHR 0x27] @
              '' is not defined''), RegularFile text)"
  by (simp add: update_settings_button_def update_settings_call_def update_settings_def
      update_settings_in_def update_settings_try_def open_read_def yaml_unbound py_bind_def
      name_error_def digits_3 del: length_Cons list.size)

section \<open>Properties of the artifact loader\<close>

lemma load_first_none:
  "\<forall>p\<in>set patterns. \<not> path_exists os (path_join d p) \<Longrightarrow> load_first os d patterns = None"
  by (induction patterns) simp_all

text \<open>
  The loop over the datasets does its part: in a directory with a relationships file that
  \<open>pd.read_parquet\<close> reads, under the current or the legacy name, and with no entities
  and no community-reports file, it gives the table of that file and two empty tables.
\<close>

lemma load_keys_only_relationships:
  assumes rel: "(path_exists os (path_join d ''relationships.parquet'') \<and>
               read_parquet os (path_join d ''relationships.parquet'') = Inr df) \<or>
              (\<not> path_exists os (path_join d ''relationships.parquet'') \<and>
               path_exists os (path_join d ''create_final_relationships.parquet'') \<and>
               read_parquet os (path_join d ''create_final_relationships.parquet'') = Inr df)"
    and ent: "\<not> path_exists os (path_join d ''entities.parquet'')"
             "\<not> path_exists os (path_join d ''create_final_entities.parquet'')"
    and rep: "\<not> path_exists os (path_join d ''community_reports.parquet'')"
             "\<not> path_exists os (path_join d ''create_final_community_reports.parquet'')"
  shows "map (\<lambda>(key, patterns). (key, load_key os d patterns)) file_patterns =
           [(''entities'', empty_dataframe), (''relationships'', df),
            (''reports'', empty_dataframe)]"
proof -
  have e: "load_key os d [''entities.parquet'', ''create_final_entities.parquet''] = empty_dataframe"
    using ent by (simp add: load_key_def)
  have r: "load_key os d [''community_reports.parquet'',
             ''create_final_community_reports.parquet''] = empty_dataframe"
    using rep by (simp add: load_key_def)
  have l: "load_key os d [''relationships.parquet'', ''create_final_relationships.parquet''] = df"
    using rel by (auto simp: load_key_def)
  show ?thesis
    by (simp add: file_patterns_def e r l)
qed

text \<open>
  And so does the other path of the resolver: with the same file alone in the only
  subdirectory of the output directory, the loader returns the three tables.
\<close>

lemma load_nested_output:
  "get_latest_output_dir nested_output = Inr (Some ''rag_project/output/run1'') \<and>
   load_parquet_files nested_output =
     Inr (Some [(''entities'', empty_dataframe), (''relationships'', relationships0),
                (''reports'', empty_dataframe)])"
proof -
  have d: "get_latest_output_dir nested_output = Inr (Some ''rag_project/output/run1'')"
    by (simp add: get_latest_output_dir_def nested_output_def path_join_def RAG_DIR_def
        py_bind_def)
  have "map (\<lambda>(key, patterns). (key, load_key nested_output ''rag_project/output/run1'' patterns))
          file_patterns =
        [(''entities'', empty_dataframe), (''relationships'', relationships0),
         (''reports'', empty_dataframe)]"
    by (rule load_keys_only_relationships) (simp_all add: nested_output_def path_join_def)
  with d show ?thesis by (simp add: load_parquet_files_def py_bind_def)
qed

text \<open>
  C5 (the defect): under the comment "Check for parquet files directly in output" the
  resolver tests for \<open>entities.parquet\<close> alone. When the output directory exists and
  holds a relationships file that reads as a populated table, no \<open>entities.parquet\<close>
  and no subdirectory, \<open>get_latest_output_dir\<close> returns \<open>None\<close> and so does
  \<open>load_parquet_files\<close>: the caller gets no dictionary at all, where the claim has it
  get the populated relationships table with two empty ones.
\<close>

theorem load_relationships_in_root_gives_none:
  assumes "path_exists os (path_join RAG_DIR ''output'')"
    and "path_exists os (path_join (path_join RAG_DIR ''output'') ''relationships.parquet'')"
    and "read_parquet os (path_join (path_join RAG_DIR ''output'') ''relationships.parquet'') = Inr df"
    and "\<not> df_empty df"
    and "\<not> path_exists os (path_join (path_join RAG_DIR ''output'') ''entities.parquet'')"
    and "listdir os (path_join RAG_DIR ''output'') = Inr names"
    and "\<forall>d\<in>set names. \<not> isdir os (path_join (path_join RAG_DIR ''output'') d)"
  shows "get_latest_output_dir os = Inr None \<and> load_parquet_files os = Inr None"
proof -
  from assms(7)
  have "filter (\<lambda>d. isdir os (path_join (path_join RAG_DIR ''output'') d)) names = []"
    by (simp add: filter_empty_conv)
  with assms(1,5,6) have "get_latest_output_dir os = Inr None"
    by (simp add: get_latest_output_dir_def py_bind_def Let_def)
  then show ?thesis by (simp add: load_parquet_files_def py_bind_def)
qed

theorem load_relationships_in_root_gives_none_witness:
  "path_exists flat_output ''rag_project/output'' \<and>
   path_exists flat_output ''rag_project/output/relationships.parquet'' \<and>
   read_parquet flat_output ''rag_project/output/relationships.parquet'' = Inr relationships0 \<and>
   \<not> df_empty relationships0 \<and>
   \<not> path_exists flat_output ''rag_project/output/entities.parquet'' \<and>
   listdir flat_output ''rag_project/output'' = Inr [''relationships.parquet''] \<and>
   \<not> isdir flat_output ''rag_project/output/relationships.parquet'' \<and>
   get_latest_output_dir flat_output = Inr None \<and>
   load_parquet_files flat_output = Inr None"
proof -
  have j: "path_join RAG_DIR ''output'' = ''rag_project/output''"
    "path_join ''rag_project/output'' ''relationships.parquet'' =
       ''rag_project/output/relationships.parquet''"
    "path_join ''rag_project/output'' ''entities.parquet'' = ''rag_project/output/entities.parquet''"
    by (simp_all add: path_join_def RAG_DIR_def)
  have h: "path_exists flat_output ''rag_project/output''"
    "path_exists flat_output ''rag_project/output/relationships.parquet''"
    "read_parquet flat_output ''rag_project/output/relationships.parquet'' = Inr relationships0"
    "\<not> df_empty relationships0"
    "\<not> path_exists flat_output ''rag_project/output/entities.parquet''"
    "listdir flat_output ''rag_project/output'' = Inr [''relationships.parquet'']"
    "\<not> isdir flat_output ''rag_project/output/relationships.parquet''"
    by (simp_all add: flat_output_def df_empty_def relationships0_def)
  have "get_latest_output_dir flat_output = Inr None \<and> load_parquet_files flat_output = Inr None"
    by (rule load_relationships_in_root_gives_none
          [of flat_output relationships0 "[''relationships.parquet'']"])
       (simp_all add: j h)
  with h show ?thesis by simp
qed

end
